theory Spec2Isabelle
  imports Complex_Main "HOL-Library.Sublist"
begin

section \<open>JavaScript values, errors and effects\<close>

text \<open>
  A thrown value is an error object with a name and a message; \<open>new Error(msg)\<close> has the
  name \<open>Error\<close>. \<open>String(error)\<close> is \<open>Error.prototype.toString\<close>.
\<close>

datatype js_error = JsError (err_name: string) (err_message: string)

definition Error :: "string \<Rightarrow> js_error" where
  "Error msg = JsError ''Error'' msg"

definition String_of_error :: "js_error \<Rightarrow> string" where
  "String_of_error e =
     (if err_name e = [] then err_message e
      else if err_message e = [] then err_name e
      else err_name e @ '': '' @ err_message e)"

text \<open>
  The source's fields of type \<open>number\<close> that hold counts and codes (quantity, HTTP status,
  port, process exit code, clock) are integers here; the price, which has a fractional part,
  is a rational. \<open>Number_toString\<close> is the rendering of a template literal and
  \<open>toFixed\<close> follows ECMAScript's \<open>Number.prototype.toFixed\<close>: the sign, then the
  integer \<open>n\<close> nearest to \<open>x * 10^f\<close> (the larger one on a tie), padded with zeros to
  more than \<open>f\<close> digits, with the point before the last \<open>f\<close> digits. Both agree with
  ECMAScript for magnitudes below \<open>10^21\<close>, where it switches to exponent notation;
  \<open>NaN\<close> and the infinities are not represented.
\<close>

fun digits :: "nat \<Rightarrow> string" where
  "digits n =
     (if n < 10 then [''0123456789'' ! n]
      else digits (n div 10) @ [''0123456789'' ! (n mod 10)])"

declare digits.simps [simp del]

definition Number_toString :: "int \<Rightarrow> string" where
  "Number_toString i = (if i < 0 then ''-'' @ digits (nat (- i)) else digits (nat i))"

definition toFixed :: "nat \<Rightarrow> rat \<Rightarrow> string" where
  "toFixed f x =
     (let s = (if x < 0 then ''-'' else '''');
          n = nat (floor (\<bar>x\<bar> * 10 ^ f + 1 / 2));
          m = (if n = 0 then ''0'' else digits n);
          m = (if f \<noteq> 0 then
                 (let k = length m;
                      m = (if k \<le> f then replicate (f + 1 - k) (CHR ''0'') @ m else m);
                      k = (if k \<le> f then f + 1 else k)
                  in take (k - f) m @ ''.'' @ drop (k - f) m)
               else m)
      in s @ m)"

text \<open>A decimal digit, for stating what a rendering looks like.\<close>

definition is_digit :: "char \<Rightarrow> bool" where
  "is_digit c = (c \<in> set ''0123456789'')"

text \<open>Truthiness and \<open>a || b\<close> at the types where the source uses them.\<close>

definition truthy_string :: "string option \<Rightarrow> bool" where
  "truthy_string v = (case v of None \<Rightarrow> False | Some s \<Rightarrow> s \<noteq> [])"

definition truthy_int :: "int option \<Rightarrow> bool" where
  "truthy_int v = (case v of None \<Rightarrow> False | Some n \<Rightarrow> n \<noteq> 0)"

definition or_string :: "string option \<Rightarrow> string \<Rightarrow> string" where
  "or_string a b = (case a of None \<Rightarrow> b | Some s \<Rightarrow> if s = [] then b else s)"

text \<open>\<open>Array.prototype.join\<close> on an array of strings.\<close>

fun join :: "string \<Rightarrow> string list \<Rightarrow> string" where
  "join sep [] = []"
| "join sep [x] = x"
| "join sep (x # y # ys) = x @ sep @ join sep (y # ys)"

text \<open>
  What a function does to the outside world is the list of its events, in order: console
  output, the HTTP request, and the calls to the operating system made for mail delivery.
\<close>

datatype event =
    ConsoleLog string
  | ConsoleError string js_error
  | FetchCall string "(string \<times> string) list"
  | MakeTempFile
  | WriteTextFile string string
  | ReadTextFile string
  | SpawnCommand string "string list"
  | StdinWrite string
  | StdinClose
  | ProcessOutput
  | CommandOutput string "string list"
  | RemoveFile string

fun is_external_call :: "event \<Rightarrow> bool" where
  "is_external_call (ConsoleLog _) = False"
| "is_external_call (ConsoleError _ _) = False"
| "is_external_call _ = True"

text \<open>
  An asynchronous function either returns a value or throws, after some events.
  \<open>andThen\<close> is sequencing of awaited statements, \<open>tryCatch\<close> and \<open>tryFinally\<close> are
  the \<open>try\<close> statement.
\<close>

type_synonym 'a outcome = "(js_error + 'a) \<times> event list"

definition returns :: "'a \<Rightarrow> 'a outcome" where
  "returns a = (Inr a, [])"

definition throw :: "js_error \<Rightarrow> 'a outcome" where
  "throw e = (Inl e, [])"

definition console_log :: "string \<Rightarrow> unit outcome" where
  "console_log s = (Inr (), [ConsoleLog s])"

definition console_error :: "string \<Rightarrow> js_error \<Rightarrow> unit outcome" where
  "console_error s e = (Inr (), [ConsoleError s e])"

definition call :: "event \<Rightarrow> (js_error + 'a) \<Rightarrow> 'a outcome" where
  "call ev result = (result, [ev])"

definition andThen :: "'a outcome \<Rightarrow> ('a \<Rightarrow> 'b outcome) \<Rightarrow> 'b outcome" where
  "andThen m f =
     (case m of
        (Inl e, evs) \<Rightarrow> (Inl e, evs)
      | (Inr a, evs) \<Rightarrow> (case f a of (r, evs') \<Rightarrow> (r, evs @ evs')))"

definition tryCatch :: "'a outcome \<Rightarrow> (js_error \<Rightarrow> 'a outcome) \<Rightarrow> 'a outcome" where
  "tryCatch m handler =
     (case m of
        (Inl e, evs) \<Rightarrow> (case handler e of (r, evs') \<Rightarrow> (r, evs @ evs'))
      | (Inr a, evs) \<Rightarrow> (Inr a, evs))"

definition tryFinally :: "'a outcome \<Rightarrow> unit outcome \<Rightarrow> 'a outcome" where
  "tryFinally m fin =
     (case m of (r, evs) \<Rightarrow>
        (case fin of
           (Inl e, evs') \<Rightarrow> (Inl e, evs @ evs')
         | (Inr _, evs') \<Rightarrow> (r, evs @ evs')))"

section \<open>The data model\<close>

record StoreStock =
  store :: string
  quantity :: int
  name :: "string option"
  location :: "string option"
  price :: "rat option"

record StockResponse =
  stores :: "StoreStock list"
  sku :: string
  name :: "string option"

text \<open>Of a \<open>StockTrackItem\<close>, the fields that the program reads.\<close>

record Location =
  Aisle :: string

record StockTrackItem =
  Store :: string
  Price :: rat
  Quantity :: int
  Description :: string
  Location :: "Location option"

text \<open>
  The interface declares \<open>host\<close> and \<open>port\<close> as required, but the configuration is
  never validated when it is loaded and \<open>sendNotification\<close> tests both for truthiness,
  so their absence is a value here.
\<close>

record EmailConfig =
  provider :: string
  host :: "string option"
  port :: "int option"
  username :: "string option"
  password :: "string option"
  fromEmail :: string
  fromName :: "string option"

record Config =
  email :: string
  checkIntervalMinutes :: int
  stores :: "string list"
  sku :: string
  emailConfig :: EmailConfig

section \<open>loadConfig\<close>

text \<open>
  \<open>JSON.parse(configText) as Config\<close>: the cast does nothing at run time, so what
  \<open>loadConfig\<close> returns is the parsed document, whatever it holds. Its two arguments
  are the outcomes of \<open>Deno.readTextFile\<close> and of \<open>JSON.parse\<close> on the text read.
\<close>

datatype json =
    JNull
  | JBool bool
  | JNumber rat
  | JString string
  | JArray "json list"
  | JObject "(string \<times> json) list"

definition loadConfig :: "(js_error + string) \<Rightarrow> (js_error + json) \<Rightarrow> json outcome" where
  "loadConfig readTextFile_result JSON_parse_result =
     tryCatch
       (andThen (call (ReadTextFile ''./config.json'') readTextFile_result) (\<lambda>configText.
        andThen (JSON_parse_result, []) (\<lambda>config.
        returns config)))
       (\<lambda>error.
        andThen (console_error ''Error loading config.json:'' error) (\<lambda>_.
        throw (Error ''Failed to load configuration'')))"

text \<open>
  The shape of a configuration document, from the interface \<open>Config\<close>: the five required
  fields, each of its declared JSON type. A later duplicate of a key wins, as in
  \<open>JSON.parse\<close>.
\<close>

definition field :: "(string \<times> json) list \<Rightarrow> string \<Rightarrow> json option" where
  "field kvs k = map_of (rev kvs) k"

fun is_JString :: "json \<Rightarrow> bool" where
  "is_JString (JString _) = True"
| "is_JString _ = False"

definition has_required_fields :: "json \<Rightarrow> bool" where
  "has_required_fields doc =
     (case doc of
        JObject kvs \<Rightarrow>
          (case field kvs ''email'' of Some (JString _) \<Rightarrow> True | _ \<Rightarrow> False) \<and>
          (case field kvs ''checkIntervalMinutes'' of Some (JNumber _) \<Rightarrow> True | _ \<Rightarrow> False) \<and>
          (case field kvs ''stores'' of Some (JArray xs) \<Rightarrow> list_all is_JString xs | _ \<Rightarrow> False) \<and>
          (case field kvs ''sku'' of Some (JString _) \<Rightarrow> True | _ \<Rightarrow> False) \<and>
          (case field kvs ''emailConfig'' of Some (JObject _) \<Rightarrow> True | _ \<Rightarrow> False)
      | _ \<Rightarrow> False)"

section \<open>checkStock\<close>

text \<open>
  The outcome of \<open>fetch\<close> is an error or a response; \<open>response.ok\<close> is the Fetch API's
  test of the status. \<open>response.json()\<close> throws or returns the parsed body, which the
  source declares to be an array of items and also tests for being falsy: a body is null or
  an array of items.
\<close>

datatype body = JsonNull | JsonArray "StockTrackItem list"

record response =
  status :: int
  json_result :: "js_error + body"

definition ok :: "response \<Rightarrow> bool" where
  "ok r = (200 \<le> status r \<and> status r \<le> 299)"

definition checkStock_url :: "Config \<Rightarrow> string" where
  "checkStock_url config =
     (let storeParam = join '','' (Config.stores config)
      in ''https://stocktrack.ca/ct/availability.php?store='' @ storeParam @ ''&sku='' @
         Config.sku config @ ''&src=upc'')"

definition checkStock_headers :: "(string \<times> string) list" where
  "checkStock_headers =
     [(''User-Agent'', ''Mozilla/5.0 (Windows NT 10.0; Win64; x64) AppleWebKit/537.36 (KHTML, like Gecko) Chrome/91.0.4472.124 Safari/537.36''),
      (''Accept'', ''text/html,application/xhtml+xml,application/xml;q=0.9,image/webp,*/*;q=0.8''),
      (''Accept-Language'', ''en-US,en;q=0.5''),
      (''Connection'', ''keep-alive''),
      (''Upgrade-Insecure-Requests'', ''1''),
      (''Cache-Control'', ''max-age=0''),
      (''Referer'', ''https://stocktrack.ca/'')]"

text \<open>The two \<open>for\<close> loops that push onto \<open>storeStocks\<close>.\<close>

fun push_items :: "StockTrackItem list \<Rightarrow> StoreStock list \<Rightarrow> StoreStock list" where
  "push_items [] storeStocks = storeStocks"
| "push_items (item # rest) storeStocks =
     push_items rest
       (storeStocks @
        [\<lparr> store = Store item,
           quantity = Quantity item,
           StoreStock.name = Some (''Canadian Tire '' @ Store item),
           location = (case Location item of None \<Rightarrow> None | Some l \<Rightarrow> Some (Aisle l)),
           price = Some (Price item) \<rparr>])"

fun push_stores :: "string list \<Rightarrow> StoreStock list \<Rightarrow> StoreStock list" where
  "push_stores [] storeStocks = storeStocks"
| "push_stores (s # rest) storeStocks =
     push_stores rest
       (storeStocks @
        [\<lparr> store = s, quantity = 0, StoreStock.name = None, location = None, price = None \<rparr>])"

text \<open>
  What \<open>checkStock\<close> does with the parsed body, up to its \<open>return\<close>. The test
  \<open>jsonData && jsonData.length > 0\<close> holds exactly for a non-empty array, whose first
  item is then \<open>jsonData[0]\<close>; a null body and an empty array take the other branch.
\<close>

definition parse_stock :: "Config \<Rightarrow> body \<Rightarrow> StockResponse" where
  "parse_stock config jsonData =
     (case jsonData of
        JsonArray (first # others) \<Rightarrow>
          (let productName = or_string (Some (Description first)) '''';
               storeStocks = push_items (first # others) []
           in \<lparr> StockResponse.stores = storeStocks,
                StockResponse.sku = Config.sku config,
                StockResponse.name = Some productName \<rparr>)
      | _ \<Rightarrow>
          (let productName = '''';
               storeStocks = push_stores (Config.stores config) []
           in \<lparr> StockResponse.stores = storeStocks,
                StockResponse.sku = Config.sku config,
                StockResponse.name = Some productName \<rparr>))"

definition checkStock :: "Config \<Rightarrow> (js_error + response) \<Rightarrow> StockResponse outcome" where
  "checkStock config fetch_result =
     (let url = checkStock_url config
      in tryCatch
           (andThen (console_log (''Fetching data from: '' @ url)) (\<lambda>_.
            andThen (call (FetchCall url checkStock_headers) fetch_result) (\<lambda>response.
            if \<not> ok response
            then throw (Error (''HTTP error! status: '' @ Number_toString (status response)))
            else andThen (json_result response, []) (\<lambda>jsonData.
                 returns (parse_stock config jsonData)))))
           (\<lambda>error.
            andThen (console_error ''Error checking stock:'' error) (\<lambda>_.
            throw (Error ''Failed to check stock availability''))))"

section \<open>sendSmtpEmail\<close>

text \<open>
  The outcomes of the operating-system calls of one delivery attempt, and the clock.
  \<open>mail_output\<close> gives the exit code of the \<open>mail\<close> process and its decoded standard error.
\<close>

record os_env =
  makeTempFile :: "js_error + string"
  writeTextFile :: "js_error + unit"
  readTextFile :: "js_error + string"
  spawn :: "js_error + unit"
  stdin_write :: "js_error + unit"
  stdin_close :: "js_error + unit"
  mail_output :: "js_error + (int \<times> string)"
  remove :: "js_error + unit"
  now :: int

record MailOptions =
  host :: "string option"
  port :: "int option"
  username :: "string option"
  password :: "string option"
  from' :: string
  to' :: string
  subject :: string
  text' :: string
  html :: "string option"

definition sendSmtpEmail :: "os_env \<Rightarrow> MailOptions \<Rightarrow> unit outcome" where
  "sendSmtpEmail os options =
     andThen (call MakeTempFile (makeTempFile os)) (\<lambda>tempFile.
     tryFinally
       (andThen (call (WriteTextFile tempFile (or_string (html options) (text' options)))
                      (writeTextFile os)) (\<lambda>_.
        andThen (call (SpawnCommand ''mail''
                         [''-s'', subject options,
                          ''-a'', ''From: '' @ from' options,
                          ''-a'', ''Content-Type: text/html'',
                          to' options])
                      (spawn os)) (\<lambda>_.
        andThen (call (ReadTextFile tempFile) (readTextFile os)) (\<lambda>fileContent.
        andThen (call (StdinWrite fileContent) (stdin_write os)) (\<lambda>_.
        andThen (call StdinClose (stdin_close os)) (\<lambda>_.
        andThen (call ProcessOutput (mail_output os)) (\<lambda>(code, errorOutput).
        if code \<noteq> 0
        then throw (Error (''Mail command failed with code '' @ Number_toString code @ '': '' @
                           errorOutput))
        else console_log (''Mail sent to '' @ to' options @ '' via system mail command''))))))))
       (tryCatch (call (RemoveFile tempFile) (remove os))
          (\<lambda>error. console_error ''Error removing temp file:'' error)))"

section \<open>sendNotification\<close>

text \<open>
  The filter on positive quantity, and the callback that renders one store:
  \<open>store.name || store.store\<close>, the quantity, then the price under \<open>if (store.price)\<close>,
  which is false for an absent price and for 0, and the location under
  \<open>if (store.location)\<close>, which is false for an absent and for an empty location.
  \<open>subject_line\<close> is the source's \<open>subject\<close>.
\<close>

definition storesWithStock :: "StoreStock list \<Rightarrow> StoreStock list" where
  "storesWithStock entries = filter (\<lambda>s. quantity s > 0) entries"

definition storeInfo :: "StoreStock \<Rightarrow> string" where
  "storeInfo s =
     (let info = or_string (StoreStock.name s) (store s) @ '': '' @
                 Number_toString (quantity s) @ '' in stock'';
          info = (case price s of
                    None \<Rightarrow> info
                  | Some p \<Rightarrow> if p = 0 then info else info @ '' at $'' @ toFixed 2 p);
          info = (case location s of
                    None \<Rightarrow> info
                  | Some l \<Rightarrow> if l = [] then info else info @ '' ('' @ l @ '')'')
      in info)"

definition storeList :: "StoreStock list \<Rightarrow> string" where
  "storeList withStock = join ''\<newline>'' (map storeInfo withStock)"

definition subject_line :: "StockResponse \<Rightarrow> string" where
  "subject_line stockInfo =
     ''Stock Alert: '' @ or_string (StockResponse.name stockInfo) (StockResponse.sku stockInfo) @
     '' Available at Canadian Tire''"

definition plainTextContent :: "Config \<Rightarrow> StockResponse \<Rightarrow> string \<Rightarrow> string" where
  \<open>plainTextContent config stockInfo list =
     ''\<newline>      Stock Alert!\<newline>      \<newline>      The item you're tracking ('' @
     or_string (StockResponse.name stockInfo) (StockResponse.sku stockInfo) @
     '') is now in stock at the following Canadian Tire locations:\<newline>      \<newline>      '' @
     list @
     ''\<newline>      \<newline>      Check it out at: https://stocktrack.ca/ct/availability.php?store='' @
     join '','' (Config.stores config) @ ''&sku='' @ StockResponse.sku stockInfo @
     ''&src=upc\<newline>    ''\<close>

definition htmlContent :: "Config \<Rightarrow> StockResponse \<Rightarrow> string \<Rightarrow> string" where
  \<open>htmlContent config stockInfo list =
     ''\<newline>      <h1>Stock Alert!</h1>\<newline>      <p>The item you're tracking <strong>'' @
     or_string (StockResponse.name stockInfo) (StockResponse.sku stockInfo) @
     ''</strong> is now in stock at the following Canadian Tire locations:</p>\<newline>      <pre>'' @
     list @
     ''</pre>\<newline>      <p>Check it out at: <a href="https://stocktrack.ca/ct/availability.php?store='' @
     join '','' (Config.stores config) @ ''&sku='' @ StockResponse.sku stockInfo @
     ''&src=upc">StockTrack</a></p>\<newline>    ''\<close>

definition console_notification :: "Config \<Rightarrow> string \<Rightarrow> string \<Rightarrow> unit outcome" where
  "console_notification config subj plain =
     andThen (console_log ''\<newline>=== STOCK NOTIFICATION ===\<newline>'') (\<lambda>_.
     andThen (console_log (''To: '' @ email config)) (\<lambda>_.
     andThen (console_log (''Subject: '' @ subj)) (\<lambda>_.
     andThen (console_log plain) (\<lambda>_.
     andThen (console_log ''\<newline>=========================\<newline>'') (\<lambda>_.
     andThen (console_log (''Notification would be sent to '' @ email config @ '' in production'')) (\<lambda>_.
     console_log ''Note: Email functionality is using console mode. Set provider to 'sendgrid' and add API key for real emails.''))))))"

text \<open>The body of the \<open>try\<close> statement of \<open>sendNotification\<close>, as in \<open>main.ts\<close>.\<close>

definition sendNotification_try ::
  "os_env \<Rightarrow> Config \<Rightarrow> StockResponse \<Rightarrow> StoreStock list \<Rightarrow> unit outcome" where
  "sendNotification_try os config stockInfo withStock =
     (let list = storeList withStock;
          subj = subject_line stockInfo;
          plain = plainTextContent config stockInfo list;
          htm = htmlContent config stockInfo list;
          ec = emailConfig config
      in if provider ec = ''smtp''
         then (let fromName' = or_string (fromName ec) ''Canadian Tire Stock Checker''
               in if \<not> truthy_string (EmailConfig.host ec) \<or> \<not> truthy_int (EmailConfig.port ec)
                  then throw (Error ''SMTP host and port are required'')
                  else
                    andThen (console_log (''Sending email notification to '' @ email config @
                                          '' via SMTP...'')) (\<lambda>_.
                    tryCatch
                      (let sender = (if fromName' \<noteq> [] then fromName' @ '' <'' @ fromEmail ec @ ''>''
                                     else fromEmail ec)
                       in andThen
                            (sendSmtpEmail os
                               \<lparr> MailOptions.host = EmailConfig.host ec,
                                 MailOptions.port = EmailConfig.port ec,
                                 MailOptions.username = EmailConfig.username ec,
                                 MailOptions.password = EmailConfig.password ec,
                                 from' = sender,
                                 to' = email config,
                                 subject = subj,
                                 text' = plain,
                                 html = Some htm \<rparr>) (\<lambda>_.
                          console_log (''Email notification sent to '' @ email config @
                                       '' successfully'')))
                      (\<lambda>error.
                       andThen (console_error ''SMTP error:'' error) (\<lambda>_.
                       throw (Error (''Failed to send email: '' @ String_of_error error))))))
         else console_notification config subj plain)"

definition sendNotification :: "os_env \<Rightarrow> Config \<Rightarrow> StockResponse \<Rightarrow> unit outcome" where
  "sendNotification os config stockInfo =
     (let withStock = storesWithStock (StockResponse.stores stockInfo)
      in if length withStock = 0
         then console_log ''No stock available, skipping notification''
         else tryCatch (sendNotification_try os config stockInfo withStock)
                (\<lambda>error. console_error ''Error sending notification:'' error))"

text \<open>
  The other source file has the same \<open>sendNotification\<close> except for the delivery in
  \<open>smtp\<close> mode, which writes the message to a file named after the clock and runs
  \<open>mail\<close> on it.
\<close>

definition sendNotification_try_part000 ::
  "os_env \<Rightarrow> Config \<Rightarrow> StockResponse \<Rightarrow> StoreStock list \<Rightarrow> unit outcome" where
  "sendNotification_try_part000 os config stockInfo withStock =
     (let list = storeList withStock;
          subj = subject_line stockInfo;
          plain = plainTextContent config stockInfo list;
          htm = htmlContent config stockInfo list;
          ec = emailConfig config
      in if provider ec = ''smtp''
         then (let fromName' = or_string (fromName ec) ''Canadian Tire Stock Checker''
               in if \<not> truthy_string (EmailConfig.host ec) \<or> \<not> truthy_int (EmailConfig.port ec)
                  then throw (Error ''SMTP host and port are required'')
                  else
                    andThen (console_log (''Sending email notification to '' @ email config @
                                          '' via SMTP...'')) (\<lambda>_.
                    tryCatch
                      (let tempFileName = ''/tmp/stock_alert_'' @ Number_toString (now os) @ ''.txt'';
                           emailContent =
                             ''Subject: '' @ subj @ ''\<newline>From: '' @ fromName' @ '' <'' @
                             fromEmail ec @ ''>\<newline>To: '' @ email config @
                             ''\<newline>Content-Type: text/html\<newline>\<newline>'' @ htm
                       in andThen (call (WriteTextFile tempFileName emailContent)
                                        (writeTextFile os)) (\<lambda>_.
                          andThen (call (CommandOutput ''mail'' [''-t'', ''<'', tempFileName])
                                        (mail_output os)) (\<lambda>(code, errorOutput).
                          andThen (call (RemoveFile tempFileName) (remove os)) (\<lambda>_.
                          if code \<noteq> 0
                          then throw (Error (''Mail command failed: '' @ errorOutput))
                          else console_log (''Email notification sent to '' @ email config @
                                            '' successfully'')))))
                      (\<lambda>error.
                       andThen (console_error ''Email error:'' error) (\<lambda>_.
                       throw (Error (''Failed to send email: '' @ String_of_error error))))))
         else console_notification config subj plain)"

definition sendNotification_part000 :: "os_env \<Rightarrow> Config \<Rightarrow> StockResponse \<Rightarrow> unit outcome" where
  "sendNotification_part000 os config stockInfo =
     (let withStock = storesWithStock (StockResponse.stores stockInfo)
      in if length withStock = 0
         then console_log ''No stock available, skipping notification''
         else tryCatch (sendNotification_try_part000 os config stockInfo withStock)
                (\<lambda>error. console_error ''Error sending notification:'' error))"

section \<open>runCheck\<close>

definition runCheck_header :: "StockResponse \<Rightarrow> string" where
  "runCheck_header stockInfo =
     ''Stock information for SKU '' @ StockResponse.sku stockInfo @ '' ('' @
     or_string (StockResponse.name stockInfo) ''Unknown'' @ ''):''"

definition runCheck_storeInfo :: "StoreStock \<Rightarrow> string" where
  "runCheck_storeInfo s =
     (let info = ''  '' @ or_string (StoreStock.name s) (store s) @ '': '' @
                 Number_toString (quantity s) @ '' in stock''
      in if quantity s > 0
         then (let info = (case price s of
                             None \<Rightarrow> info
                           | Some p \<Rightarrow> if p = 0 then info else info @ '' at $'' @ toFixed 2 p);
                   info = (case location s of
                             None \<Rightarrow> info
                           | Some l \<Rightarrow> if l = [] then info else info @ '' ('' @ l @ '')'')
               in info)
         else info)"

fun log_stores :: "StoreStock list \<Rightarrow> unit outcome" where
  "log_stores [] = returns ()"
| "log_stores (s # rest) = andThen (console_log (runCheck_storeInfo s)) (\<lambda>_. log_stores rest)"

text \<open>\<open>toLocaleString\<close> is the rendering of the current date.\<close>

definition runCheck :: "string \<Rightarrow> (js_error + response) \<Rightarrow> os_env \<Rightarrow> Config \<Rightarrow> unit outcome" where
  "runCheck toLocaleString fetch_result os config =
     tryCatch
       (andThen (console_log (''Checking stock at '' @ toLocaleString @ ''...'')) (\<lambda>_.
        andThen (checkStock config fetch_result) (\<lambda>stockInfo.
        andThen (console_log (runCheck_header stockInfo)) (\<lambda>_.
        andThen (log_stores (StockResponse.stores stockInfo)) (\<lambda>_.
        (let hasStock = list_ex (\<lambda>s. quantity s > 0) (StockResponse.stores stockInfo)
         in if hasStock
            then andThen (console_log ''Stock found! Sending notification...'') (\<lambda>_.
                 sendNotification os config stockInfo)
            else console_log ''No stock available at any store.''))))))
       (\<lambda>error. console_error ''Error running stock check:'' error)"

section \<open>Example inputs\<close>

text \<open>
  The configuration and the responses of the end-to-end scenarios: two stores, one product,
  console delivery; a response with one record for the first store; an empty response.
\<close>

definition example_emailConfig :: EmailConfig where
  "example_emailConfig =
     \<lparr> provider = ''console'',
       EmailConfig.host = None,
       EmailConfig.port = None,
       EmailConfig.username = None,
       EmailConfig.password = None,
       fromEmail = ''alerts@example.com'',
       fromName = None \<rparr>"

definition example_config :: Config where
  "example_config =
     \<lparr> email = ''me@example.com'',
       checkIntervalMinutes = 60,
       Config.stores = [''0459'', ''0150''],
       Config.sku = ''1502321'',
       emailConfig = example_emailConfig \<rparr>"

definition example_item :: StockTrackItem where
  "example_item =
     \<lparr> Store = ''0459'', Price = 1999 / 100, Quantity = 3, Description = ''Widget'',
       Location = None \<rparr>"

definition example_response :: response where
  "example_response = \<lparr> status = 200, json_result = Inr (JsonArray [example_item]) \<rparr>"

definition empty_response :: response where
  "empty_response = \<lparr> status = 200, json_result = Inr (JsonArray []) \<rparr>"

definition example_store :: StoreStock where
  "example_store =
     \<lparr> store = ''0459'', quantity = 3, StoreStock.name = Some ''Canadian Tire 0459'',
       location = None, price = Some (1999 / 100) \<rparr>"

definition example_snapshot :: StockResponse where
  "example_snapshot =
     \<lparr> StockResponse.stores = [example_store],
       StockResponse.sku = ''1502321'',
       StockResponse.name = Some ''Widget'' \<rparr>"

definition empty_snapshot :: StockResponse where
  "empty_snapshot =
     \<lparr> StockResponse.stores =
         [\<lparr> store = ''0459'', quantity = 0, StoreStock.name = None, location = None,
            price = None \<rparr>,
          \<lparr> store = ''0150'', quantity = 0, StoreStock.name = None, location = None,
            price = None \<rparr>],
       StockResponse.sku = ''1502321'',
       StockResponse.name = Some [] \<rparr>"

text \<open>A delivery in which every call succeeds, and one in which \<open>mail\<close> exits with 1.\<close>

definition example_os :: os_env where
  "example_os =
     \<lparr> makeTempFile = Inr ''/tmp/deno-0001'',
       writeTextFile = Inr (),
       readTextFile = Inr ''message'',
       spawn = Inr (),
       stdin_write = Inr (),
       stdin_close = Inr (),
       mail_output = Inr (0, []),
       remove = Inr (),
       now = 1700000000000 \<rparr>"

definition failing_os :: os_env where
  "failing_os = example_os \<lparr> mail_output := Inr (1, ''relay refused'') \<rparr>"

text \<open>The same configuration in \<open>smtp\<close> mode, with and without a host.\<close>

definition smtp_config :: Config where
  "smtp_config =
     example_config \<lparr> emailConfig :=
       example_emailConfig \<lparr> provider := ''smtp'',
                             EmailConfig.host := Some ''localhost'',
                             EmailConfig.port := Some 25 \<rparr> \<rparr>"

definition smtp_config_no_host :: Config where
  "smtp_config_no_host =
     example_config \<lparr> emailConfig :=
       example_emailConfig \<lparr> provider := ''smtp'', EmailConfig.port := Some 25 \<rparr> \<rparr>"

text \<open>A store that has stock and a price of zero.\<close>

definition free_item_store :: StoreStock where
  "free_item_store =
     \<lparr> store = ''0459'', quantity = 3, StoreStock.name = None, location = None,
       price = Some 0 \<rparr>"

section \<open>Properties of checkStock\<close>

lemmas outcome_defs = returns_def throw_def console_log_def console_error_def call_def
  andThen_def tryCatch_def tryFinally_def Let_def

text \<open>Each loop appends one entry per element, in order, to what it was given.\<close>

lemma push_items_acc:
  "push_items items acc =
     acc @ map (\<lambda>item. \<lparr> store = Store item, quantity = Quantity item,
                        StoreStock.name = Some (''Canadian Tire '' @ Store item),
                        location = (case Location item of None \<Rightarrow> None
                                    | Some l \<Rightarrow> Some (Aisle l)),
                        price = Some (Price item) \<rparr>) items"
  by (induction items arbitrary: acc) simp_all

lemma push_stores_acc:
  "push_stores ids acc =
     acc @ map (\<lambda>s. \<lparr> store = s, quantity = 0, StoreStock.name = None, location = None,
                     price = None \<rparr>) ids"
  by (induction ids arbitrary: acc) simp_all

text \<open>On a successful response with a body that parses, the request is all that happens.\<close>

lemma checkStock_ok:
  assumes "ok response" and "json_result response = Inr jsonData"
  shows "checkStock config (Inr response) =
           (Inr (parse_stock config jsonData),
            [ConsoleLog (''Fetching data from: '' @ checkStock_url config),
             FetchCall (checkStock_url config) checkStock_headers])"
  using assms by (simp add: checkStock_def outcome_defs)

text \<open>A snapshot is only ever returned from a successful response whose body parsed.\<close>

lemma checkStock_Inr:
  assumes "fst (checkStock config fetch_result) = Inr stockInfo"
  shows "\<exists>response jsonData. fetch_result = Inr response \<and> ok response \<and>
           json_result response = Inr jsonData \<and> stockInfo = parse_stock config jsonData"
  using assms
  by (cases fetch_result; cases "json_result (projr fetch_result)")
     (auto simp: checkStock_def outcome_defs split: if_splits)

lemma parse_stock_sku: "StockResponse.sku (parse_stock config jsonData) = Config.sku config"
  by (simp add: parse_stock_def Let_def split: body.splits list.splits)

lemma parse_stock_no_items:
  "jsonData = JsonArray [] \<or> jsonData = JsonNull \<Longrightarrow>
   StockResponse.name (parse_stock config jsonData) = Some []"
  by (auto simp: parse_stock_def)

text \<open>
  C1. For every configuration and every successful response whose body parses as a
  non-empty array of \<open>N\<close> records, \<open>checkStock\<close> returns a snapshot with exactly \<open>N\<close>
  entries, one per record in array order (same store identifiers, in order), each with the
  record's \<open>Quantity\<close> unchanged, and with the first record's \<open>Description\<close> as product
  name.
\<close>

theorem checkStock_nonempty_array:
  assumes "ok response" and "json_result response = Inr (JsonArray items)" and "items \<noteq> []"
  shows "\<exists>snapshot. fst (checkStock config (Inr response)) = Inr snapshot \<and>
           length (StockResponse.stores snapshot) = length items \<and>
           map store (StockResponse.stores snapshot) = map Store items \<and>
           map quantity (StockResponse.stores snapshot) = map Quantity items \<and>
           StockResponse.name snapshot = Some (Description (hd items))"
proof -
  from assms(3) obtain first others where items: "items = first # others"
    by (cases items) auto
  let ?snapshot = "parse_stock config (JsonArray items)"
  have "fst (checkStock config (Inr response)) = Inr ?snapshot"
    using checkStock_ok [OF assms(1,2)] by simp
  moreover have "length (StockResponse.stores ?snapshot) = length items"
    by (simp add: items parse_stock_def push_items_acc del: push_items.simps)
  moreover have "map store (StockResponse.stores ?snapshot) = map Store items"
    by (simp add: items parse_stock_def push_items_acc comp_def del: push_items.simps)
  moreover have "map quantity (StockResponse.stores ?snapshot) = map Quantity items"
    by (simp add: items parse_stock_def push_items_acc comp_def del: push_items.simps)
  moreover have "StockResponse.name ?snapshot = Some (Description (hd items))"
    by (simp add: items parse_stock_def or_string_def)
  ultimately show ?thesis by blast
qed

text \<open>
  C1 at the scenario's response: one record, for store 0459, quantity 3, described as
  Widget.
\<close>

theorem checkStock_nonempty_array_witness:
  "ok example_response \<and> json_result example_response = Inr (JsonArray [example_item]) \<and>
   [example_item] \<noteq> [] \<and>
   (\<exists>snapshot. fst (checkStock example_config (Inr example_response)) = Inr snapshot \<and>
      length (StockResponse.stores snapshot) = 1 \<and>
      map store (StockResponse.stores snapshot) = [''0459''] \<and>
      map quantity (StockResponse.stores snapshot) = [3] \<and>
      StockResponse.name snapshot = Some ''Widget'')"
proof -
  have h1: "ok example_response" by (simp add: ok_def example_response_def)
  have h2: "json_result example_response = Inr (JsonArray [example_item])"
    by (simp add: example_response_def)
  have h3: "[example_item] \<noteq> []" by simp
  show ?thesis
    using h1 h2 checkStock_nonempty_array [OF h1 h2 h3, of example_config]
    by (simp add: example_item_def)
qed

text \<open>
  C2. For every configuration, when the body of a successful response parses as an empty
  array, \<open>checkStock\<close> returns a snapshot with exactly one entry per configured store
  identifier, in configuration order, each with quantity zero and no name, location or
  price.
\<close>

theorem checkStock_empty_array:
  assumes "ok response" and "json_result response = Inr (JsonArray [])"
  shows "fst (checkStock config (Inr response)) =
           Inr \<lparr> StockResponse.stores =
                   map (\<lambda>s. \<lparr> store = s, quantity = 0, StoreStock.name = None,
                               location = None, price = None \<rparr>) (Config.stores config),
                 StockResponse.sku = Config.sku config,
                 StockResponse.name = Some [] \<rparr>"
  using checkStock_ok [OF assms] by (simp add: parse_stock_def push_stores_acc)

text \<open>C2 at the scenario's configuration: two stores, so two entries with quantity 0.\<close>

theorem checkStock_empty_array_witness:
  "ok empty_response \<and> json_result empty_response = Inr (JsonArray []) \<and>
   fst (checkStock example_config (Inr empty_response)) = Inr empty_snapshot"
proof -
  have h1: "ok empty_response" by (simp add: ok_def empty_response_def)
  have h2: "json_result empty_response = Inr (JsonArray [])" by (simp add: empty_response_def)
  show ?thesis
    using h1 h2 checkStock_empty_array [OF h1 h2, of example_config]
    by (simp add: example_config_def empty_snapshot_def)
qed

text \<open>
  C4, as amended. For every response with a non-success status, \<open>checkStock\<close> fails, and
  the error delivered to the caller is the fixed error \<open>Failed to check stock availability\<close>;
  the HTTP status code is in the message of the error that \<open>checkStock\<close> writes to the
  console before failing, not in the error it delivers.
\<close>

theorem checkStock_http_error:
  assumes "\<not> ok response"
  shows "checkStock config (Inr response) =
           (Inl (Error ''Failed to check stock availability''),
            [ConsoleLog (''Fetching data from: '' @ checkStock_url config),
             FetchCall (checkStock_url config) checkStock_headers,
             ConsoleError ''Error checking stock:''
               (Error (''HTTP error! status: '' @ Number_toString (status response)))])"
  using assms by (simp add: checkStock_def outcome_defs)

text \<open>C4, as amended, at a response with status 404.\<close>

theorem checkStock_http_error_witness:
  "\<not> ok (example_response \<lparr> status := 404 \<rparr>) \<and>
   checkStock example_config (Inr (example_response \<lparr> status := 404 \<rparr>)) =
     (Inl (Error ''Failed to check stock availability''),
      [ConsoleLog ''Fetching data from: https://stocktrack.ca/ct/availability.php?store=0459,0150&sku=1502321&src=upc'',
       FetchCall ''https://stocktrack.ca/ct/availability.php?store=0459,0150&sku=1502321&src=upc''
         checkStock_headers,
       ConsoleError ''Error checking stock:'' (Error ''HTTP error! status: 404'')])"
proof -
  have h: "\<not> ok (example_response \<lparr> status := 404 \<rparr>)" by (simp add: ok_def)
  show ?thesis
    using h checkStock_http_error [OF h, of example_config]
    by (simp add: checkStock_url_def example_config_def Number_toString_def digits.simps)
qed

text \<open>
  C4 as stated fails: the responses with status 404 and with status 500 deliver the very
  same error to the caller, and its message does not contain the status code.
\<close>

theorem checkStock_error_drops_status:
  "\<not> ok (example_response \<lparr> status := 404 \<rparr>) \<and>
   fst (checkStock example_config (Inr (example_response \<lparr> status := 404 \<rparr>))) =
     Inl (Error ''Failed to check stock availability'') \<and>
   fst (checkStock example_config (Inr (example_response \<lparr> status := 500 \<rparr>))) =
     Inl (Error ''Failed to check stock availability'') \<and>
   \<not> sublist (Number_toString 404) (err_message (Error ''Failed to check stock availability''))"
  by (simp add: checkStock_def outcome_defs ok_def example_response_def Error_def
        Number_toString_def digits.simps sublist_code)

text \<open>
  C10, as amended. Whenever \<open>checkStock\<close> succeeds, the snapshot's \<open>sku\<close> is the
  configured SKU, unchanged; and when the body is an empty array (or null), the product name
  is the empty string, so that the subject line of the notification falls back to the SKU,
  while the log line of \<open>runCheck\<close> shows \<open>Unknown\<close> in place of the name.
\<close>

theorem checkStock_sku_and_name:
  assumes "fst (checkStock config fetch_result) = Inr stockInfo"
  shows "StockResponse.sku stockInfo = Config.sku config \<and>
         (\<forall>response. fetch_result = Inr response \<and>
                     (json_result response = Inr (JsonArray []) \<or>
                      json_result response = Inr JsonNull) \<longrightarrow>
            StockResponse.name stockInfo = Some [] \<and>
            subject_line stockInfo =
              ''Stock Alert: '' @ Config.sku config @ '' Available at Canadian Tire'' \<and>
            runCheck_header stockInfo =
              ''Stock information for SKU '' @ Config.sku config @ '' (Unknown):'')"
proof -
  from checkStock_Inr [OF assms] obtain response jsonData where
    r: "fetch_result = Inr response" "json_result response = Inr jsonData"
       "stockInfo = parse_stock config jsonData"
    by blast
  have sku: "StockResponse.sku stockInfo = Config.sku config"
    by (simp add: r(3) parse_stock_sku)
  have "StockResponse.name stockInfo = Some [] \<and>
        subject_line stockInfo =
          ''Stock Alert: '' @ Config.sku config @ '' Available at Canadian Tire'' \<and>
        runCheck_header stockInfo =
          ''Stock information for SKU '' @ Config.sku config @ '' (Unknown):''"
    if "jsonData = JsonArray [] \<or> jsonData = JsonNull"
  proof -
    have n: "StockResponse.name stockInfo = Some []"
      using that by (simp add: r(3) parse_stock_no_items)
    show ?thesis
      by (simp add: n sku subject_line_def runCheck_header_def or_string_def)
  qed
  with sku r show ?thesis by auto
qed

text \<open>C10, as amended, at the scenario with the empty response.\<close>

theorem checkStock_sku_and_name_witness:
  "fst (checkStock example_config (Inr empty_response)) = Inr empty_snapshot \<and>
   StockResponse.sku empty_snapshot = ''1502321'' \<and>
   StockResponse.name empty_snapshot = Some [] \<and>
   subject_line empty_snapshot = ''Stock Alert: 1502321 Available at Canadian Tire'' \<and>
   runCheck_header empty_snapshot = ''Stock information for SKU 1502321 (Unknown):''"
proof -
  have h: "fst (checkStock example_config (Inr empty_response)) = Inr empty_snapshot"
    by (simp add: checkStock_def outcome_defs ok_def empty_response_def parse_stock_def
          example_config_def empty_snapshot_def)
  have j: "json_result empty_response = Inr (JsonArray [])"
    by (simp add: empty_response_def)
  show ?thesis
    using h j checkStock_sku_and_name [OF h]
    by (simp add: example_config_def)
qed

text \<open>
  C10 as stated fails: with the empty response, the line that \<open>runCheck\<close> logs puts
  \<open>Unknown\<close>, not the SKU, where the product name goes.
\<close>

theorem runCheck_header_unknown:
  "fst (checkStock example_config (Inr empty_response)) = Inr empty_snapshot \<and>
   StockResponse.sku empty_snapshot = ''1502321'' \<and>
   runCheck_header empty_snapshot = ''Stock information for SKU 1502321 (Unknown):'' \<and>
   runCheck_header empty_snapshot \<noteq> ''Stock information for SKU 1502321 (1502321):'' \<and>
   ConsoleLog ''Stock information for SKU 1502321 (Unknown):''
     \<in> set (snd (runCheck ''10:00'' (Inr empty_response) example_os example_config))"
  by (simp add: runCheck_def checkStock_def outcome_defs ok_def empty_response_def parse_stock_def
        example_config_def empty_snapshot_def runCheck_header_def or_string_def)

section \<open>Properties of loadConfig\<close>

text \<open>
  C3, as amended. \<open>loadConfig\<close> fails with the error \<open>Failed to load configuration\<close>
  exactly when the file cannot be read or its text is not valid JSON; otherwise it returns
  the parsed document as it is, whatever fields it has or lacks.
\<close>

theorem loadConfig_no_validation:
  "fst (loadConfig readTextFile_result JSON_parse_result) =
     (case readTextFile_result of
        Inl e \<Rightarrow> Inl (Error ''Failed to load configuration'')
      | Inr configText \<Rightarrow>
          (case JSON_parse_result of
             Inl e \<Rightarrow> Inl (Error ''Failed to load configuration'')
           | Inr document \<Rightarrow> Inr document))"
  by (simp add: loadConfig_def outcome_defs split: sum.splits)

text \<open>C3, as amended, at a file that does not exist and at a file that holds \<open>null\<close>.\<close>

theorem loadConfig_no_validation_witness:
  "fst (loadConfig (Inl (JsError ''NotFound'' ''No such file or directory'')) (Inr JNull)) =
     Inl (Error ''Failed to load configuration'') \<and>
   fst (loadConfig (Inr ''null'') (Inr JNull)) = Inr JNull"
  using loadConfig_no_validation [of "Inl (JsError ''NotFound'' ''No such file or directory'')" "Inr JNull"]
    loadConfig_no_validation [of "Inr ''null''" "Inr JNull"]
  by simp

text \<open>
  C3 as stated fails: the document \<open>{}\<close> has none of the required fields, and
  \<open>loadConfig\<close> returns it.
\<close>

theorem loadConfig_accepts_empty_document:
  "fst (loadConfig (Inr ''{}'') (Inr (JObject []))) = Inr (JObject []) \<and>
   \<not> has_required_fields (JObject [])"
  by (simp add: loadConfig_def outcome_defs has_required_fields_def field_def)

section \<open>Properties of sendNotification\<close>

lemma storesWithStock_none:
  "(\<forall>s \<in> set entries. quantity s = 0) \<Longrightarrow> storesWithStock entries = []"
  by (simp add: storesWithStock_def filter_empty_conv)

lemma storesWithStock_some:
  "\<exists>s \<in> set entries. quantity s > 0 \<Longrightarrow> length (storesWithStock entries) \<noteq> 0"
  by (auto simp: storesWithStock_def filter_empty_conv)

text \<open>
  C6. For every configuration and every snapshot in which every entry has quantity 0,
  \<open>sendNotification\<close>, in either source file, returns normally having only logged that
  it skips the notification: no console or mail delivery, no error, no call outside the
  program. (Configuration and snapshot are values that the function only reads.)
\<close>

theorem sendNotification_no_stock:
  assumes "\<forall>s \<in> set (StockResponse.stores stockInfo). quantity s = 0"
  shows "sendNotification os config stockInfo =
           (Inr (), [ConsoleLog ''No stock available, skipping notification'']) \<and>
         sendNotification_part000 os config stockInfo =
           (Inr (), [ConsoleLog ''No stock available, skipping notification'']) \<and>
         \<not> list_ex is_external_call (snd (sendNotification os config stockInfo)) \<and>
         \<not> list_ex is_external_call (snd (sendNotification_part000 os config stockInfo))"
  using storesWithStock_none [OF assms]
  by (simp add: sendNotification_def sendNotification_part000_def console_log_def)

text \<open>
  C6 at the snapshot of the empty response, whose two entries have quantity 0, in
  \<open>smtp\<close> mode.
\<close>

theorem sendNotification_no_stock_witness:
  "map quantity (StockResponse.stores empty_snapshot) = [0, 0] \<and>
   sendNotification example_os smtp_config empty_snapshot =
     (Inr (), [ConsoleLog ''No stock available, skipping notification'']) \<and>
   sendNotification_part000 example_os smtp_config empty_snapshot =
     (Inr (), [ConsoleLog ''No stock available, skipping notification''])"
proof -
  have h: "\<forall>s \<in> set (StockResponse.stores empty_snapshot). quantity s = 0"
    by (simp add: empty_snapshot_def)
  have q: "map quantity (StockResponse.stores empty_snapshot) = [0, 0]"
    by (simp add: empty_snapshot_def)
  show ?thesis
    using q sendNotification_no_stock [OF h, of example_os smtp_config] by simp
qed

text \<open>In \<open>smtp\<close> mode the delivery stops before any event when host or port is falsy.\<close>

lemma sendNotification_try_no_host:
  assumes "provider (emailConfig config) = ''smtp''"
    and "\<not> truthy_string (EmailConfig.host (emailConfig config)) \<or>
         \<not> truthy_int (EmailConfig.port (emailConfig config))"
  shows "sendNotification_try os config stockInfo withStock =
           (Inl (Error ''SMTP host and port are required''), [])"
    and "sendNotification_try_part000 os config stockInfo withStock =
           (Inl (Error ''SMTP host and port are required''), [])"
  using assms
  by (auto simp: sendNotification_try_def sendNotification_try_part000_def Let_def throw_def)

text \<open>
  C7, as amended. For every configuration in \<open>smtp\<close> mode whose host or port is
  missing, and every snapshot with an entry of positive quantity, the delivery inside
  \<open>sendNotification\<close> fails with the error \<open>SMTP host and port are required\<close> before
  any event, so no call outside the program is made; \<open>sendNotification\<close> itself does
  not fail: it logs that error and returns normally. The same holds in both source files.
\<close>

theorem sendNotification_missing_host:
  assumes "provider (emailConfig config) = ''smtp''"
    and "EmailConfig.host (emailConfig config) = None \<or>
         EmailConfig.port (emailConfig config) = None"
    and "\<exists>s \<in> set (StockResponse.stores stockInfo). quantity s > 0"
  shows "sendNotification_try os config stockInfo
           (storesWithStock (StockResponse.stores stockInfo)) =
           (Inl (Error ''SMTP host and port are required''), []) \<and>
         sendNotification os config stockInfo =
           (Inr (), [ConsoleError ''Error sending notification:''
                       (Error ''SMTP host and port are required'')]) \<and>
         \<not> list_ex is_external_call (snd (sendNotification os config stockInfo)) \<and>
         sendNotification_try_part000 os config stockInfo
           (storesWithStock (StockResponse.stores stockInfo)) =
           (Inl (Error ''SMTP host and port are required''), []) \<and>
         sendNotification_part000 os config stockInfo =
           (Inr (), [ConsoleError ''Error sending notification:''
                       (Error ''SMTP host and port are required'')]) \<and>
         \<not> list_ex is_external_call (snd (sendNotification_part000 os config stockInfo))"
proof -
  have falsy: "\<not> truthy_string (EmailConfig.host (emailConfig config)) \<or>
               \<not> truthy_int (EmailConfig.port (emailConfig config))"
    using assms(2) by (auto simp: truthy_string_def truthy_int_def)
  note t = sendNotification_try_no_host [OF assms(1) falsy]
  have n: "length (storesWithStock (StockResponse.stores stockInfo)) \<noteq> 0"
    using assms(3) by (rule storesWithStock_some)
  show ?thesis
    using n by (simp add: t sendNotification_def sendNotification_part000_def
                  tryCatch_def console_error_def)
qed

text \<open>
  C7, as amended, at the scenario's snapshot with stock, in \<open>smtp\<close> mode without a
  host.
\<close>

theorem sendNotification_missing_host_witness:
  "provider (emailConfig smtp_config_no_host) = ''smtp'' \<and>
   EmailConfig.host (emailConfig smtp_config_no_host) = None \<and>
   (\<exists>s \<in> set (StockResponse.stores example_snapshot). quantity s > 0) \<and>
   sendNotification example_os smtp_config_no_host example_snapshot =
     (Inr (), [ConsoleError ''Error sending notification:''
                 (Error ''SMTP host and port are required'')]) \<and>
   sendNotification_part000 example_os smtp_config_no_host example_snapshot =
     (Inr (), [ConsoleError ''Error sending notification:''
                 (Error ''SMTP host and port are required'')])"
proof -
  have h1: "provider (emailConfig smtp_config_no_host) = ''smtp''"
    by (simp add: smtp_config_no_host_def example_emailConfig_def)
  have h2: "EmailConfig.host (emailConfig smtp_config_no_host) = None"
    by (simp add: smtp_config_no_host_def example_emailConfig_def)
  have h3: "\<exists>s \<in> set (StockResponse.stores example_snapshot). quantity s > 0"
    by (simp add: example_snapshot_def example_store_def)
  show ?thesis
    using h1 h2 h3 sendNotification_missing_host [OF h1 disjI1 [OF h2] h3, of example_os]
    by simp
qed

text \<open>
  C7 as stated fails: in \<open>smtp\<close> mode without a host, with a store in stock,
  \<open>sendNotification\<close> does not fail, in either source file: it returns normally, and the
  error \<open>SMTP host and port are required\<close> is not its outcome.
\<close>

theorem sendNotification_missing_host_returns:
  "provider (emailConfig smtp_config_no_host) = ''smtp'' \<and>
   EmailConfig.host (emailConfig smtp_config_no_host) = None \<and>
   StockResponse.stores example_snapshot = [example_store] \<and>
   quantity example_store > 0 \<and>
   fst (sendNotification example_os smtp_config_no_host example_snapshot) = Inr () \<and>
   fst (sendNotification example_os smtp_config_no_host example_snapshot) \<noteq>
     Inl (Error ''SMTP host and port are required'') \<and>
   fst (sendNotification_part000 example_os smtp_config_no_host example_snapshot) = Inr () \<and>
   fst (sendNotification_part000 example_os smtp_config_no_host example_snapshot) \<noteq>
     Inl (Error ''SMTP host and port are required'')"
proof -
  have p: "provider (emailConfig smtp_config_no_host) = ''smtp''"
    by (simp add: smtp_config_no_host_def example_emailConfig_def)
  have h: "EmailConfig.host (emailConfig smtp_config_no_host) = None"
    by (simp add: smtp_config_no_host_def example_emailConfig_def)
  have falsy: "\<not> truthy_string (EmailConfig.host (emailConfig smtp_config_no_host)) \<or>
               \<not> truthy_int (EmailConfig.port (emailConfig smtp_config_no_host))"
    by (simp add: h truthy_string_def)
  have s: "StockResponse.stores example_snapshot = [example_store]"
    by (simp add: example_snapshot_def)
  have q: "quantity example_store > 0"
    by (simp add: example_store_def)
  have w: "storesWithStock [example_store] = [example_store]"
    using q by (simp add: storesWithStock_def)
  have a: "fst (sendNotification example_os smtp_config_no_host example_snapshot) = Inr ()"
    by (simp add: sendNotification_def s w sendNotification_try_no_host(1) [OF p falsy]
          tryCatch_def console_error_def)
  have b: "fst (sendNotification_part000 example_os smtp_config_no_host example_snapshot) = Inr ()"
    by (simp add: sendNotification_part000_def s w sendNotification_try_no_host(2) [OF p falsy]
          tryCatch_def console_error_def)
  show ?thesis
    using p h s q by (simp add: a b)
qed

text \<open>A \<open>try\<close> whose handler only logs never throws.\<close>

lemma tryCatch_console_error:
  fixes m :: "unit outcome"
  shows "fst (tryCatch m (\<lambda>error. console_error s error)) = Inr ()"
  by (cases m; cases "fst m") (auto simp: tryCatch_def console_error_def)

text \<open>
  C5. For every configuration and every snapshot, whatever the outcomes of the calls made
  for delivery, \<open>sendNotification\<close> returns normally, in both source files, and so does
  the cycle \<open>runCheck\<close>; and whenever the delivery inside it fails with an error, that
  error is logged by \<open>sendNotification\<close> as its last event.
\<close>

theorem sendNotification_never_throws:
  "fst (sendNotification os config stockInfo) = Inr () \<and>
   fst (sendNotification_part000 os config stockInfo) = Inr () \<and>
   fst (runCheck toLocaleString fetch_result os config) = Inr () \<and>
   (\<forall>e evs. storesWithStock (StockResponse.stores stockInfo) \<noteq> [] \<and>
            sendNotification_try os config stockInfo
              (storesWithStock (StockResponse.stores stockInfo)) = (Inl e, evs) \<longrightarrow>
            snd (sendNotification os config stockInfo) =
              evs @ [ConsoleError ''Error sending notification:'' e]) \<and>
   (\<forall>e evs. storesWithStock (StockResponse.stores stockInfo) \<noteq> [] \<and>
            sendNotification_try_part000 os config stockInfo
              (storesWithStock (StockResponse.stores stockInfo)) = (Inl e, evs) \<longrightarrow>
            snd (sendNotification_part000 os config stockInfo) =
              evs @ [ConsoleError ''Error sending notification:'' e])"
proof -
  have a: "fst (sendNotification os config stockInfo) = Inr ()"
    by (simp add: sendNotification_def Let_def tryCatch_console_error console_log_def)
  have b: "fst (sendNotification_part000 os config stockInfo) = Inr ()"
    by (simp add: sendNotification_part000_def Let_def tryCatch_console_error console_log_def)
  have c: "fst (runCheck toLocaleString fetch_result os config) = Inr ()"
    unfolding runCheck_def by (rule tryCatch_console_error)
  have d: "snd (sendNotification os config stockInfo) =
             evs @ [ConsoleError ''Error sending notification:'' e]"
    if "storesWithStock (StockResponse.stores stockInfo) \<noteq> []"
      and "sendNotification_try os config stockInfo
             (storesWithStock (StockResponse.stores stockInfo)) = (Inl e, evs)" for e evs
    using that by (simp add: sendNotification_def tryCatch_def console_error_def)
  have e: "snd (sendNotification_part000 os config stockInfo) =
             evs @ [ConsoleError ''Error sending notification:'' e]"
    if "storesWithStock (StockResponse.stores stockInfo) \<noteq> []"
      and "sendNotification_try_part000 os config stockInfo
             (storesWithStock (StockResponse.stores stockInfo)) = (Inl e, evs)" for e evs
    using that by (simp add: sendNotification_part000_def tryCatch_def console_error_def)
  from a b c d e show ?thesis by blast
qed

text \<open>
  C5 at a delivery in \<open>smtp\<close> mode in which \<open>mail\<close> exits with 1: the delivery fails,
  \<open>sendNotification\<close> returns, and its last event is the log of that failure.
\<close>

theorem sendNotification_never_throws_witness:
  "storesWithStock (StockResponse.stores example_snapshot) \<noteq> [] \<and>
   fst (sendNotification_try failing_os smtp_config example_snapshot
          (storesWithStock (StockResponse.stores example_snapshot))) =
     Inl (Error ''Failed to send email: Error: Mail command failed with code 1: relay refused'') \<and>
   fst (sendNotification failing_os smtp_config example_snapshot) = Inr () \<and>
   last (snd (sendNotification failing_os smtp_config example_snapshot)) =
     ConsoleError ''Error sending notification:''
       (Error ''Failed to send email: Error: Mail command failed with code 1: relay refused'')"
proof -
  have h1: "storesWithStock (StockResponse.stores example_snapshot) \<noteq> []"
    by code_simp
  have h2: "fst (sendNotification_try failing_os smtp_config example_snapshot
                   (storesWithStock (StockResponse.stores example_snapshot))) =
              Inl (Error ''Failed to send email: Error: Mail command failed with code 1: relay refused'')"
    by code_simp
  have h3: "sendNotification_try failing_os smtp_config example_snapshot
              (storesWithStock (StockResponse.stores example_snapshot)) =
            (Inl (Error ''Failed to send email: Error: Mail command failed with code 1: relay refused''),
             snd (sendNotification_try failing_os smtp_config example_snapshot
                    (storesWithStock (StockResponse.stores example_snapshot))))"
    using h2 by (simp add: prod_eq_iff)
  show ?thesis
    using h1 h2 h3 sendNotification_never_throws [of failing_os smtp_config example_snapshot]
    by (metis last_snoc)
qed

text \<open>
  C9. For every configuration, and the snapshot that \<open>checkStock\<close> returned for it (the
  link takes its SKU from the snapshot), the HTML body holds an anchor whose \<open>href\<close> is
  exactly the URL that \<open>checkStock\<close> builds and fetches for that configuration.
\<close>

theorem html_link_is_query_url:
  assumes "fst (checkStock config fetch_result) = Inr stockInfo"
  shows \<open>FetchCall (checkStock_url config) checkStock_headers
           \<in> set (snd (checkStock config fetch_result)) \<and>
         (\<exists>pre post. htmlContent config stockInfo list =
            pre @ ''<a href="'' @ checkStock_url config @ ''">StockTrack</a>'' @ post)\<close>
proof -
  from checkStock_Inr [OF assms] obtain response jsonData where
    r: "fetch_result = Inr response" "ok response" "json_result response = Inr jsonData"
       "stockInfo = parse_stock config jsonData"
    by blast
  have sku: "StockResponse.sku stockInfo = Config.sku config"
    by (simp add: r(4) parse_stock_sku)
  have fetched: "FetchCall (checkStock_url config) checkStock_headers
                   \<in> set (snd (checkStock config fetch_result))"
    by (simp add: r(1) checkStock_ok [OF r(2,3)])
  have \<open>htmlContent config stockInfo list =
          (''\<newline>      <h1>Stock Alert!</h1>\<newline>      <p>The item you're tracking <strong>'' @
           or_string (StockResponse.name stockInfo) (StockResponse.sku stockInfo) @
           ''</strong> is now in stock at the following Canadian Tire locations:</p>\<newline>      <pre>'' @
           list @ ''</pre>\<newline>      <p>Check it out at: '') @
          ''<a href="'' @ checkStock_url config @ ''">StockTrack</a>'' @ ''</p>\<newline>    ''\<close>
    by (simp add: htmlContent_def checkStock_url_def sku)
  then have \<open>\<exists>pre post. htmlContent config stockInfo list =
            pre @ ''<a href="'' @ checkStock_url config @ ''">StockTrack</a>'' @ post\<close>
    by blast
  with fetched show ?thesis by blast
qed

text \<open>C9 at the scenario's configuration and response.\<close>

theorem html_link_is_query_url_witness:
  \<open>fst (checkStock example_config (Inr example_response)) = Inr example_snapshot \<and>
   checkStock_url example_config =
     ''https://stocktrack.ca/ct/availability.php?store=0459,0150&sku=1502321&src=upc'' \<and>
   (\<exists>pre post. htmlContent example_config example_snapshot [] =
      pre @ ''<a href="https://stocktrack.ca/ct/availability.php?store=0459,0150&sku=1502321&src=upc">StockTrack</a>'' @ post)\<close>
proof -
  have h: "fst (checkStock example_config (Inr example_response)) = Inr example_snapshot"
    by (simp add: checkStock_def outcome_defs ok_def example_response_def parse_stock_def
          example_config_def example_snapshot_def example_store_def example_item_def
          or_string_def)
  have u: "checkStock_url example_config =
     ''https://stocktrack.ca/ct/availability.php?store=0459,0150&sku=1502321&src=upc''"
    by (simp add: checkStock_url_def example_config_def)
  show ?thesis
    using h u html_link_is_query_url [OF h, of "[]"] by simp
qed

section \<open>The store-list summary\<close>

lemma digit_char: "d < 10 \<Longrightarrow> is_digit (''0123456789'' ! d)"
  unfolding is_digit_def by (rule nth_mem) simp

lemma digits_all_digit: "list_all is_digit (digits n)"
proof (induction n rule: digits.induct)
  case (1 n)
  show ?case
  proof (cases "n < 10")
    case True
    then show ?thesis by (subst digits.simps) (simp add: digit_char)
  next
    case False
    have "is_digit (''0123456789'' ! (n mod 10))" by (rule digit_char) simp
    with False 1 show ?thesis by (subst digits.simps) simp
  qed
qed

lemma digits_nonempty: "digits n \<noteq> []"
  by (subst digits.simps) simp

text \<open>
  \<open>toFixed(2)\<close> renders an optional minus sign, at least one digit, a point and exactly
  two digits.
\<close>

lemma toFixed_2_shape:
  "\<exists>sign whole frac. toFixed 2 x = sign @ whole @ ''.'' @ frac \<and>
     (sign = [] \<or> sign = ''-'') \<and> whole \<noteq> [] \<and> list_all is_digit whole \<and>
     length frac = 2 \<and> list_all is_digit frac"
proof -
  define n where "n = nat (floor (\<bar>x\<bar> * 10 ^ 2 + 1 / 2))"
  define m0 where "m0 = (if n = 0 then ''0'' else digits n)"
  define m where
    "m = (if length m0 \<le> 2 then replicate (2 + 1 - length m0) (CHR ''0'') @ m0 else m0)"
  define k where "k = (if length m0 \<le> 2 then 2 + 1 else length m0)"
  define sign where "sign = (if x < 0 then ''-'' else [])"
  have m0: "list_all is_digit m0" "m0 \<noteq> []"
    by (simp_all add: m0_def digits_all_digit digits_nonempty is_digit_def)
  have zero: "is_digit (CHR ''0'')" by (simp add: is_digit_def)
  have m: "list_all is_digit m"
    using m0 zero by (simp add: m_def list_all_iff)
  have len: "length m = k" "3 \<le> k"
    by (auto simp: m_def k_def)
  have eq: "toFixed 2 x = sign @ take (k - 2) m @ ''.'' @ drop (k - 2) m"
    by (simp add: toFixed_def Let_def n_def m0_def m_def k_def sign_def)
  have "take (k - 2) m \<noteq> []" using len by auto
  moreover have "length (drop (k - 2) m) = 2" using len by simp
  moreover have "list_all is_digit (take (k - 2) m)"
    using m by (auto simp: list_all_iff dest: in_set_takeD)
  moreover have "list_all is_digit (drop (k - 2) m)"
    using m by (auto simp: list_all_iff dest: in_set_dropD)
  moreover have "sign = [] \<or> sign = ''-''" by (simp add: sign_def)
  ultimately show ?thesis using eq by blast
qed

text \<open>Every joined string occurs in the result of \<open>join\<close>.\<close>

lemma join_contains:
  "x \<in> set xs \<Longrightarrow> \<exists>pre post. join sep xs = pre @ x @ post"
proof (induction sep xs rule: join.induct)
  case (1 sep)
  then show ?case by simp
next
  case (2 sep y)
  then have "join sep [y] = [] @ x @ []" by simp
  then show ?case by blast
next
  case (3 sep y z zs)
  show ?case
  proof (cases "x = y")
    case True
    then have "join sep (y # z # zs) = [] @ x @ (sep @ join sep (z # zs))" by simp
    then show ?thesis by blast
  next
    case False
    with 3 obtain pre post where "join sep (z # zs) = pre @ x @ post" by auto
    then have "join sep (y # z # zs) = (y @ sep @ pre) @ x @ post" by simp
    then show ?thesis by blast
  qed
qed

lemma storeInfo_parts:
  "storeInfo s =
     (case StoreStock.name s of None \<Rightarrow> store s | Some n \<Rightarrow> if n = [] then store s else n) @
     '': '' @ Number_toString (quantity s) @ '' in stock'' @
     (case price s of None \<Rightarrow> [] | Some p \<Rightarrow> if p = 0 then [] else '' at $'' @ toFixed 2 p) @
     (case location s of None \<Rightarrow> [] | Some l \<Rightarrow> if l = [] then [] else '' ('' @ l @ '')'')"
  by (simp add: storeInfo_def Let_def or_string_def split: option.splits)

lemma storesWithStock_drop_zero:
  "storesWithStock (filter (\<lambda>z. quantity z \<noteq> 0) entries) = storesWithStock entries"
  unfolding storesWithStock_def by (induction entries) auto

text \<open>
  C8, as amended. For every snapshot and every entry of it with positive quantity, the
  store-list summary holds that store's line: its display name when one is set and not
  empty, otherwise its store identifier; its quantity; when the price is present and not
  zero, the price as \<open>toFixed(2)\<close> renders it, which for a magnitude below \<open>10^21\<close>
  is with exactly two decimal places; and when the location is present and not empty, the
  location. Entries with quantity 0 are excluded: removing them from the snapshot leaves the
  summary as it is.
\<close>

theorem storeList_summary:
  assumes "s \<in> set entries" and "quantity s > 0"
  shows "(\<exists>pre post. storeList (storesWithStock entries) =
            pre @
            (case StoreStock.name s of None \<Rightarrow> store s
             | Some n \<Rightarrow> if n = [] then store s else n) @
            '': '' @ Number_toString (quantity s) @ '' in stock'' @
            (case price s of None \<Rightarrow> []
             | Some p \<Rightarrow> if p = 0 then [] else '' at $'' @ toFixed 2 p) @
            (case location s of None \<Rightarrow> []
             | Some l \<Rightarrow> if l = [] then [] else '' ('' @ l @ '')'') @
            post) \<and>
         (\<forall>p. price s = Some p \<and> \<bar>p\<bar> < 10 ^ 21 \<longrightarrow>
            (\<exists>sign whole frac. toFixed 2 p = sign @ whole @ ''.'' @ frac \<and>
               (sign = [] \<or> sign = ''-'') \<and> whole \<noteq> [] \<and> list_all is_digit whole \<and>
               length frac = 2 \<and> list_all is_digit frac)) \<and>
         storeList (storesWithStock (filter (\<lambda>z. quantity z \<noteq> 0) entries)) =
           storeList (storesWithStock entries)"
proof (intro conjI allI impI)
  have "s \<in> set (storesWithStock entries)"
    using assms by (simp add: storesWithStock_def)
  then have "storeInfo s \<in> set (map storeInfo (storesWithStock entries))"
    by simp
  then obtain pre post where
    "storeList (storesWithStock entries) = pre @ storeInfo s @ post"
    unfolding storeList_def using join_contains by blast
  then have "storeList (storesWithStock entries) =
            pre @
            (case StoreStock.name s of None \<Rightarrow> store s
             | Some n \<Rightarrow> if n = [] then store s else n) @
            '': '' @ Number_toString (quantity s) @ '' in stock'' @
            (case price s of None \<Rightarrow> []
             | Some p \<Rightarrow> if p = 0 then [] else '' at $'' @ toFixed 2 p) @
            (case location s of None \<Rightarrow> []
             | Some l \<Rightarrow> if l = [] then [] else '' ('' @ l @ '')'') @
            post"
    by (simp only: storeInfo_parts append_assoc)
  then show "\<exists>pre post. storeList (storesWithStock entries) =
            pre @
            (case StoreStock.name s of None \<Rightarrow> store s
             | Some n \<Rightarrow> if n = [] then store s else n) @
            '': '' @ Number_toString (quantity s) @ '' in stock'' @
            (case price s of None \<Rightarrow> []
             | Some p \<Rightarrow> if p = 0 then [] else '' at $'' @ toFixed 2 p) @
            (case location s of None \<Rightarrow> []
             | Some l \<Rightarrow> if l = [] then [] else '' ('' @ l @ '')'') @
            post"
    by (intro exI)
next
  fix p
  show "\<exists>sign whole frac. toFixed 2 p = sign @ whole @ ''.'' @ frac \<and>
               (sign = [] \<or> sign = ''-'') \<and> whole \<noteq> [] \<and> list_all is_digit whole \<and>
               length frac = 2 \<and> list_all is_digit frac"
    by (rule toFixed_2_shape)
next
  show "storeList (storesWithStock (filter (\<lambda>z. quantity z \<noteq> 0) entries)) =
           storeList (storesWithStock entries)"
    by (simp only: storesWithStock_drop_zero)
qed

text \<open>
  C8, as amended, at the scenario's snapshot: the line of store 0459 with 3 in stock at
  19.99.
\<close>

theorem storeList_summary_witness:
  "example_store \<in> set (StockResponse.stores example_snapshot) \<and> quantity example_store > 0 \<and>
   price example_store = Some (1999 / 100) \<and> \<bar>1999 / 100 :: rat\<bar> < 10 ^ 21 \<and>
   (\<exists>pre post. storeList (storesWithStock (StockResponse.stores example_snapshot)) =
      pre @ ''Canadian Tire 0459: 3 in stock at $19.99'' @ post) \<and>
   (\<exists>sign whole frac. ''19.99'' = sign @ whole @ ''.'' @ frac \<and>
      (sign = [] \<or> sign = ''-'') \<and> whole \<noteq> [] \<and> list_all is_digit whole \<and>
      length frac = 2 \<and> list_all is_digit frac)"
proof -
  have h1: "example_store \<in> set (StockResponse.stores example_snapshot)"
    by (simp add: example_snapshot_def)
  have h2: "quantity example_store > 0"
    by (simp add: example_store_def)
  have h3: "price example_store = Some (1999 / 100)"
    by (simp add: example_store_def)
  have h4: "\<bar>1999 / 100 :: rat\<bar> < 10 ^ 21"
    by simp
  have f: "toFixed 2 (1999 / 100) = ''19.99''"
    by code_simp
  have q: "Number_toString 3 = ''3''"
    by (simp add: Number_toString_def digits.simps)
  have fields: "StoreStock.name example_store = Some ''Canadian Tire 0459''"
    "location example_store = None" "quantity example_store = 3"
    by (simp_all add: example_store_def)
  from storeList_summary [OF h1 h2]
  have a: "\<exists>pre post. storeList (storesWithStock (StockResponse.stores example_snapshot)) =
             pre @ ''Canadian Tire 0459: 3 in stock at $19.99'' @ post"
    and b: "\<forall>p. price example_store = Some p \<and> \<bar>p\<bar> < 10 ^ 21 \<longrightarrow>
            (\<exists>sign whole frac. toFixed 2 p = sign @ whole @ ''.'' @ frac \<and>
               (sign = [] \<or> sign = ''-'') \<and> whole \<noteq> [] \<and> list_all is_digit whole \<and>
               length frac = 2 \<and> list_all is_digit frac)"
    by (simp_all add: fields h3 f q)
  from b h3 h4 have "\<exists>sign whole frac. toFixed 2 (1999 / 100) = sign @ whole @ ''.'' @ frac \<and>
               (sign = [] \<or> sign = ''-'') \<and> whole \<noteq> [] \<and> list_all is_digit whole \<and>
               length frac = 2 \<and> list_all is_digit frac"
    by blast
  with a h1 h2 h3 h4 show ?thesis
    by (simp only: f)
qed

text \<open>
  C8 as stated fails: a store with 3 in stock and a price that is present and equal to 0
  has the line \<open>0459: 3 in stock\<close>, which does not hold the price \<open>0.00\<close>.
\<close>

theorem storeList_omits_zero_price:
  "free_item_store \<in> set [free_item_store] \<and> quantity free_item_store > 0 \<and>
   price free_item_store = Some 0 \<and> toFixed 2 0 = ''0.00'' \<and>
   storeList (storesWithStock [free_item_store]) = ''0459: 3 in stock'' \<and>
   \<not> sublist (toFixed 2 0) (storeList (storesWithStock [free_item_store]))"
proof -
  have f: "toFixed 2 0 = ''0.00''"
    by code_simp
  have l: "storeList (storesWithStock [free_item_store]) = ''0459: 3 in stock''"
    by (simp add: storeList_def storesWithStock_def free_item_store_def storeInfo_def
          or_string_def Number_toString_def digits.simps)
  have q: "quantity free_item_store > 0 \<and> price free_item_store = Some 0"
    by (simp add: free_item_store_def)
  show ?thesis
    using q by (simp add: f l sublist_code)
qed

end
